theory Spec2Isabelle
  imports Main "HOL-Library.Word"
begin

section \<open>Basic types\<close>

text \<open>
  Go's \<open>int64\<close> is a 64-bit word read in two's complement: the comparisons of the source
  are the signed ones (\<open>\<le>s\<close>). Go's \<open>int\<close> (sizes, column indices) never overflows in
  the code below and is an \<open>int\<close>. Byte slices are lists of 8-bit words.
\<close>

type_synonym int64 = "64 word"
type_synonym byte = "8 word"

definition MinInt16 :: int64 where "MinInt16 = - 32768"
definition MaxInt16 :: int64 where "MaxInt16 = 32767"
definition MinInt32 :: int64 where "MinInt32 = - 2147483648"
definition MaxInt32 :: int64 where "MaxInt32 = 2147483647"
definition MinInt64 :: int64 where "MinInt64 = - 9223372036854775808"
definition MaxInt64 :: int64 where "MaxInt64 = 9223372036854775807"

definition Int2Length :: int where "Int2Length = 2"
definition Int4Length :: int where "Int4Length = 4"
definition Int8Length :: int where "Int8Length = 8"

text \<open>
  Errors are values. \<open>Errorf\<close> is \<open>fmt.Errorf\<close> with its format string and arguments,
  \<open>Wrapf\<close> is \<open>fmt.Errorf\<close> with a trailing \<open>%w\<close> and the wrapped error. \<open>External\<close>
  stands for the errors of the collaborators whose code is outside this development
  (parameter scanning, record access, typed generation), \<open>Panic\<close> for a Go run-time panic.
\<close>

datatype fmtarg = ArgInt int | ArgStr string

datatype error =
    Errorf string "fmtarg list"
  | Wrapf string "fmtarg list" error
  | ErrWrongLimits
  | External string
  | Panic string

section \<open>Limiter and validation warnings\<close>

text \<open>
  Modelled from the spec: \<open>transformers.Int64Limiter\<close> and its constructor
  \<open>transformers.NewInt64Limiter\<close> are not part of the sources at hand. The spec describes
  the Limiter as an inclusive (min, max) range with the invariant min \<open>\<le>\<close> max; the
  constructor returns an error when the invariant cannot hold.
\<close>

record Int64Limiter =
  MinValue :: int64
  MaxValue :: int64

text \<open>
  Modelled from the spec: \<open>NewInt64Limiter\<close> keeps the invariant min \<open>\<le>\<close> max of the
  Limiter and fails otherwise.
\<close>

definition NewInt64Limiter :: "int64 \<Rightarrow> int64 \<Rightarrow> error + Int64Limiter" where
  "NewInt64Limiter minValue maxValue =
     (if minValue \<le>s maxValue
      then Inr \<lparr>MinValue = minValue, MaxValue = maxValue\<rparr>
      else Inl ErrWrongLimits)"

text \<open>
  Modelled from the spec: \<open>toolkit.ValidationWarning\<close> is not part of the sources at hand.
  It carries a message, a severity and structured metadata; a collection is fatal iff it
  contains an error-severity entry.
\<close>

datatype Severity = WarningValidationSeverity | ErrorValidationSeverity

datatype metaval = MetaInt64 int64 | MetaStr string

record ValidationWarning =
  Msg :: "string \<times> fmtarg list"
  Severity :: Severity
  Meta :: "string \<rightharpoonup> metaval"

definition NewValidationWarning :: ValidationWarning where
  "NewValidationWarning = \<lparr>Msg = ('''', []), Severity = WarningValidationSeverity, Meta = Map.empty\<rparr>"

definition SetMsgf :: "string \<Rightarrow> fmtarg list \<Rightarrow> ValidationWarning \<Rightarrow> ValidationWarning" where
  "SetMsgf f args w = w\<lparr>Msg := (f, args)\<rparr>"

definition SetSeverity :: "Severity \<Rightarrow> ValidationWarning \<Rightarrow> ValidationWarning" where
  "SetSeverity s w = w\<lparr>Severity := s\<rparr>"

definition AddMeta :: "string \<Rightarrow> metaval \<Rightarrow> ValidationWarning \<Rightarrow> ValidationWarning" where
  "AddMeta k v w = w\<lparr>Meta := (Meta w)(k \<mapsto> v)\<rparr>"

text \<open>
  Modelled from the spec: a collection of warnings is fatal iff it contains an
  error-severity entry.
\<close>

definition IsFatal :: "ValidationWarning list \<Rightarrow> bool" where
  "IsFatal warns = list_ex (\<lambda>w. Severity w = ErrorValidationSeverity) warns"

subsection \<open>integer.go: thresholds and limit validation\<close>

definition getIntThresholds :: "int \<Rightarrow> error + (int64 \<times> int64)" where
  "getIntThresholds sz =
     (if sz = Int2Length then Inr (MinInt16, MaxInt16)
      else if sz = Int4Length then Inr (MinInt32, MaxInt32)
      else if sz = Int8Length then Inr (MinInt16, MaxInt16)
      else Inl (Errorf ''unsupported int size %d'' [ArgInt sz]))"

definition limitIsValid :: "int64 \<Rightarrow> int64 \<Rightarrow> int64 \<Rightarrow> bool" where
  "limitIsValid requestedThreshold minValue maxValue =
     (minValue \<le>s requestedThreshold \<or> requestedThreshold \<le>s maxValue)"

definition getLimiterForDynamicParameter :: "int \<Rightarrow> int64 \<Rightarrow> int64 \<Rightarrow> error + Int64Limiter" where
  "getLimiterForDynamicParameter sz requestedMinValue requestedMaxValue =
     (case getIntThresholds sz of
        Inl err \<Rightarrow> Inl err
      | Inr (minValue, maxValue) \<Rightarrow>
          if \<not> limitIsValid requestedMinValue minValue maxValue then
            Inl (Errorf ''requested dynamic parameter min value is out of range of int%d size'' [ArgInt sz])
          else if \<not> limitIsValid requestedMaxValue minValue maxValue then
            Inl (Errorf ''requested dynamic parameter max value is out of range of int%d size'' [ArgInt sz])
          else
            (case NewInt64Limiter MinInt64 MaxInt64 of
               Inl err \<Rightarrow> Inl err
             | Inr limiter \<Rightarrow>
                 if requestedMinValue \<noteq> 0 \<or> requestedMaxValue \<noteq> 0 then
                   (case NewInt64Limiter requestedMinValue requestedMaxValue of
                      Inl err \<Rightarrow> Inl err
                    | Inr limiter \<Rightarrow> Inr limiter)
                 else Inr limiter))"

text \<open>
  The result of \<open>validateIntTypeAndSetLimit\<close> is Go's triple (limiter, warns, err): the
  limiter is \<open>None\<close> for \<open>nil\<close>, the warnings are the empty list for \<open>nil\<close>, the error is
  \<open>None\<close> for \<open>nil\<close>. The second warning of the source repeats the parameter name
  \<open>min\<close> and the requested minimum; the model keeps that.
\<close>

definition validateIntTypeAndSetLimit ::
  "int \<Rightarrow> int64 \<Rightarrow> int64 \<Rightarrow> Int64Limiter option \<times> ValidationWarning list \<times> error option" where
  "validateIntTypeAndSetLimit sz requestedMinValue requestedMaxValue =
     (case getIntThresholds sz of
        Inl err \<Rightarrow> (None, [], Some err)
      | Inr (minValue, maxValue) \<Rightarrow>
          (let warns = [];
               warns =
                 (if \<not> limitIsValid requestedMinValue minValue maxValue then
                    warns @
                    [AddMeta ''ParameterValue'' (MetaInt64 requestedMinValue)
                      (AddMeta ''ParameterName'' (MetaStr ''min'')
                        (AddMeta ''AllowedMaxValue'' (MetaInt64 maxValue)
                          (AddMeta ''AllowedMinValue'' (MetaInt64 minValue)
                            (SetSeverity ErrorValidationSeverity
                              (SetMsgf ''requested min value is out of int%d range'' [ArgInt sz]
                                NewValidationWarning)))))]
                  else warns);
               warns =
                 (if \<not> limitIsValid requestedMaxValue minValue maxValue then
                    warns @
                    [AddMeta ''ParameterValue'' (MetaInt64 requestedMinValue)
                      (AddMeta ''ParameterName'' (MetaStr ''min'')
                        (AddMeta ''AllowedMaxValue'' (MetaInt64 maxValue)
                          (AddMeta ''AllowedMinValue'' (MetaInt64 minValue)
                            (SetSeverity ErrorValidationSeverity
                              (SetMsgf ''requested max value is out of int%d range'' [ArgInt sz]
                                NewValidationWarning)))))]
                  else warns)
           in if IsFatal warns then (None, warns, None)
              else
                (case NewInt64Limiter MinInt64 MaxInt64 of
                   Inl err \<Rightarrow> (None, [], Some err)
                 | Inr limiter \<Rightarrow>
                     if requestedMinValue \<noteq> 0 \<or> requestedMaxValue \<noteq> 0 then
                       (case NewInt64Limiter requestedMinValue requestedMaxValue of
                          Inl err \<Rightarrow> (None, [], Some err)
                        | Inr limiter \<Rightarrow> (Some limiter, [], None))
                     else (Some limiter, [], None))))"

section \<open>hash_reducer.go\<close>

text \<open>
  A Go slice is a window on a backing array: \<open>elems\<close> are the bytes up to its length,
  \<open>spare\<close> the bytes of the backing array between its length and its capacity. The slice
  expression \<open>s[:n]\<close> panics unless \<open>0 \<le> n \<le> cap(s)\<close>, and may extend into the spare
  capacity. \<open>nil\<close> is the slice of length and capacity 0.
\<close>

record 'a slice =
  elems :: "'a list"
  spare :: "'a list"

definition nil :: "'a slice" where
  "nil = \<lparr>elems = [], spare = []\<rparr>"

definition reslice :: "'a slice \<Rightarrow> int \<Rightarrow> error + 'a slice" where
  "reslice s n =
     (if n < 0 \<or> int (length (elems s) + length (spare s)) < n
      then Inl (Panic ''slice bounds out of range'')
      else Inr \<lparr>elems = take (nat n) (elems s @ spare s),
                spare = drop (nat n) (elems s @ spare s)\<rparr>)"

text \<open>
  The interface \<open>generators.Generator\<close> as the record of its methods. A generator may
  keep state between calls (a random source): \<open>Generate\<close> takes the state and returns
  the new one.
\<close>

record 's Generator =
  Generate :: "'s \<Rightarrow> byte slice \<Rightarrow> (error + byte slice) \<times> 's"
  Size :: int

text \<open>The fields \<open>g\<close> and \<open>size\<close> of the struct are \<open>hr_g\<close> and \<open>hr_size\<close> here.\<close>

record 's HashReducer =
  hr_g :: "'s Generator"
  hr_size :: int

definition NewHashReducer :: "'s Generator \<Rightarrow> int \<Rightarrow> 's HashReducer" where
  "NewHashReducer g sz = \<lparr>hr_g = g, hr_size = sz\<rparr>"

text \<open>
  \<open>res\<close> is the named result of the source, \<open>nil\<close> when the inner generator is called;
  the argument \<open>data\<close> is not used.
\<close>

definition HashReducer_Generate ::
  "'s HashReducer \<Rightarrow> 's \<Rightarrow> byte slice \<Rightarrow> (error + byte slice) \<times> 's" where
  "HashReducer_Generate hr st data =
     (let res = nil in
      case Generate (hr_g hr) st res of
        (Inl err, st') \<Rightarrow> (Inl err, st')
      | (Inr res, st') \<Rightarrow> (reslice res (hr_size hr), st'))"

definition HashReducer_Size :: "'s HashReducer \<Rightarrow> int" where
  "HashReducer_Size hr = hr_size hr"

text \<open>Inner generators used to run the reducer on concrete inputs.\<close>

definition twoByteGenerator :: "unit Generator" where
  "twoByteGenerator = \<lparr>Generate = (\<lambda>st data. (Inr \<lparr>elems = [1, 2], spare = []\<rparr>, st)), Size = 2\<rparr>"

definition echoGenerator :: "unit Generator" where
  "echoGenerator =
     \<lparr>Generate = (\<lambda>st data. (Inr \<lparr>elems = elems data @ [7, 8, 9, 10], spare = []\<rparr>, st)), Size = 4\<rparr>"

definition fixedGenerator :: "unit Generator" where
  "fixedGenerator = \<lparr>Generate = (\<lambda>st data. (Inr \<lparr>elems = [7, 8, 9, 10], spare = []\<rparr>, st)), Size = 4\<rparr>"

definition countingGenerator :: "nat Generator" where
  "countingGenerator =
     \<lparr>Generate = (\<lambda>n data. (Inr \<lparr>elems = elems data @ [7, 8, 9, 10], spare = []\<rparr>, Suc n)), Size = 4\<rparr>"

definition failingGenerator :: "nat Generator" where
  "failingGenerator = \<lparr>Generate = (\<lambda>n data. (Inl (External ''generator failed''), Suc n)), Size = 4\<rparr>"

section \<open>The toolkit and the typed transformer\<close>

text \<open>The struct \<open>toolkit.Column\<close>; \<open>Oid\<close> and \<open>AttNum\<close> are unsigned identifiers.\<close>

type_synonym Oid = nat
type_synonym AttNum = nat

record Column =
  Idx :: int
  Name :: string
  TypeName :: string
  CanonicalTypeName :: string
  TypeOid :: Oid
  Num :: AttNum
  NotNull :: bool
  Length :: int
  OverriddenTypeName :: string
  OverriddenTypeOid :: Oid

text \<open>
  Modelled from the spec: \<open>toolkit.Record\<close>, \<open>toolkit.RawValue\<close> and \<open>toolkit.Driver\<close> are
  not part of the sources at hand. A raw value is bytes plus a null flag; a record holds
  one raw value per column, read and written by column index, and an index outside the
  record is an error that leaves the record as it is. The driver finds a column by name.
\<close>

record RawValue =
  Data :: "byte list"
  IsNull :: bool

definition NewRawValue :: "byte list \<Rightarrow> bool \<Rightarrow> RawValue" where
  "NewRawValue d isNull = \<lparr>Data = d, IsNull = isNull\<rparr>"

type_synonym ToolkitRecord = "RawValue list"

text \<open>
  Modelled from the spec: the raw value of a record is read and written by column index;
  a failed write leaves the record as it is.
\<close>

definition GetRawColumnValueByIdx :: "ToolkitRecord \<Rightarrow> int \<Rightarrow> error + RawValue" where
  "GetRawColumnValueByIdx r idx =
     (if 0 \<le> idx \<and> idx < int (length r) then Inr (r ! nat idx)
      else Inl (External ''column index is out of range''))"

definition SetRawColumnValueByIdx :: "ToolkitRecord \<Rightarrow> int \<Rightarrow> RawValue \<Rightarrow> error + ToolkitRecord" where
  "SetRawColumnValueByIdx r idx v =
     (if 0 \<le> idx \<and> idx < int (length r) then Inr (r[nat idx := v])
      else Inl (External ''column index is out of range''))"

record Driver =
  GetColumnByName :: "string \<Rightarrow> (int \<times> Column) option"

text \<open>
  Modelled from the spec: the interface \<open>toolkit.Parameterizer\<close> as the record of the two
  methods the transformer calls. \<open>Scan\<close> decodes the parameter into a destination of type
  \<open>'a\<close>; a dynamic parameter reads the record of the row being transformed (\<open>Some r\<close>),
  and no row is bound during construction (\<open>None\<close>). The map \<open>parameters\<close> of the
  constructor holds one Parameterizer for each of the four definitions of
  \<open>integerTransformerParams\<close>; it is the record of these four.
\<close>

record 'a Parameterizer =
  IsDynamic :: bool
  Scan :: "ToolkitRecord option \<Rightarrow> error + 'a"

record Parameters =
  param_column :: "string Parameterizer"
  param_min :: "int64 Parameterizer"
  param_max :: "int64 Parameterizer"
  param_keep_null :: "bool Parameterizer"

text \<open>
  The package \<open>transformers\<close> is not part of the sources at hand and is a parameter:
  \<open>NewInt64Transformer\<close> builds the typed transformer (of some type \<open>'t\<close>) from the
  generator and the limiter, and \<open>Transform\<close> runs the typed generation step on the
  bytes of a value, returning the new state of the typed transformer. The context of a
  call carries at most a limiter under the key \<open>limiter\<close>.
\<close>

type_synonym Context = "Int64Limiter option"

record ('g, 't) Transformers =
  NewInt64Transformer :: "'g \<Rightarrow> Int64Limiter option \<Rightarrow> error + 't"
  Transform :: "'t \<Rightarrow> Context \<Rightarrow> byte list \<Rightarrow> (error + byte list) \<times> 't"

text \<open>
  Every call on a collaborator is written to a log, in the order of the calls, so that
  what a function invokes can be stated.
\<close>

datatype call =
    CallScan string
  | CallGetColumnByName string
  | CallNewInt64Transformer "Int64Limiter option"
  | CallGetRaw int
  | CallTransform Context "byte list"
  | CallSetRaw int RawValue

section \<open>integer.go: the transformer\<close>

text \<open>The field \<open>t\<close> of the struct, the typed transformer, is \<open>transformer_t\<close> here.\<close>

record 't IntegerTransformer =
  columnName :: string
  keepNull :: bool
  affectedColumns :: "int \<rightharpoonup> string"
  columnIdx :: int
  transformer_t :: 't
  dynamicMode :: bool
  intSize :: int
  columnParam :: "string Parameterizer"
  maxParam :: "int64 Parameterizer"
  minParam :: "int64 Parameterizer"
  keepNullParam :: "bool Parameterizer"

text \<open>
  The result of the constructor is Go's triple (transformer, warnings, error) and the log
  of its calls. \<open>minVal\<close> and \<open>maxVal\<close> start as 0 and are scanned in static mode only.
\<close>

definition scanLimits ::
  "bool \<Rightarrow> int64 Parameterizer \<Rightarrow> int64 Parameterizer \<Rightarrow> (error + int64 \<times> int64) \<times> call list" where
  \<open>scanLimits dynMode minP maxP =
     (if \<not> dynMode then
        (case Scan minP None of
           Inl err \<Rightarrow> (Inl (Wrapf ''error scanning "min" parameter: %w'' [] err), [CallScan ''min''])
         | Inr minVal \<Rightarrow>
             (case Scan maxP None of
                Inl err \<Rightarrow>
                  (Inl (Wrapf ''error scanning "max" parameter: %w'' [] err),
                   [CallScan ''min'', CallScan ''max''])
              | Inr maxVal \<Rightarrow> (Inr (minVal, maxVal), [CallScan ''min'', CallScan ''max''])))
      else (Inr (0, 0), []))\<close>

definition NewIntegerTransformer ::
  "('g, 't) Transformers \<Rightarrow> Context \<Rightarrow> Driver \<Rightarrow> Parameters \<Rightarrow> 'g \<Rightarrow>
     ('t IntegerTransformer option \<times> ValidationWarning list \<times> error option) \<times> call list" where
  \<open>NewIntegerTransformer X ctx driver parameters g =
     (let intSize0 = 8;
          colP = param_column parameters;
          minP = param_min parameters;
          maxP = param_max parameters;
          keepNullP = param_keep_null parameters;
          dynMode = (IsDynamic minP \<or> IsDynamic maxP)
      in
      case Scan colP None of
        Inl err \<Rightarrow>
          ((None, [], Some (Wrapf ''unable to scan "column" param: %w'' [] err)),
           [CallScan ''column''])
      | Inr colName \<Rightarrow>
          (case GetColumnByName driver colName of
             None \<Rightarrow>
               ((None, [], Some (Errorf ''column with name %s is not found'' [ArgStr colName])),
                [CallScan ''column'', CallGetColumnByName colName])
           | Some (idx, c) \<Rightarrow>
               (let affected = Map.empty(idx \<mapsto> colName);
                    isz = (if Length c \<noteq> - 1 then Length c else intSize0);
                    calls1 = [CallScan ''column'', CallGetColumnByName colName, CallScan ''keep_null'']
                in
                case Scan keepNullP None of
                  Inl err \<Rightarrow>
                    ((None, [], Some (Wrapf ''unable to scan "keep_null" param: %w'' [] err)), calls1)
                | Inr keepNullV \<Rightarrow>
                    (case scanLimits dynMode minP maxP of
                       (Inl err, calls2) \<Rightarrow> ((None, [], Some err), calls1 @ calls2)
                     | (Inr (minVal, maxVal), calls2) \<Rightarrow>
                         (case validateIntTypeAndSetLimit isz minVal maxVal of
                            (limiter, limitsWarnings, Some err) \<Rightarrow>
                              ((None, [], Some err), calls1 @ calls2)
                          | (limiter, limitsWarnings, None) \<Rightarrow>
                              if IsFatal limitsWarnings then
                                ((None, limitsWarnings, None), calls1 @ calls2)
                              else
                                (case NewInt64Transformer X g limiter of
                                   Inl err \<Rightarrow>
                                     ((None, [],
                                       Some (Wrapf ''error initializing common int transformer: %w'' [] err)),
                                      calls1 @ calls2 @ [CallNewInt64Transformer limiter])
                                 | Inr tt \<Rightarrow>
                                     ((Some \<lparr>columnName = colName,
                                             keepNull = keepNullV,
                                             affectedColumns = affected,
                                             columnIdx = idx,
                                             transformer_t = tt,
                                             dynamicMode = dynMode,
                                             intSize = isz,
                                             columnParam = colP,
                                             maxParam = maxP,
                                             minParam = minP,
                                             keepNullParam = keepNullP\<rparr>,
                                       [], None),
                                      calls1 @ calls2 @ [CallNewInt64Transformer limiter])))))))\<close>

definition GetAffectedColumns :: "'t IntegerTransformer \<Rightarrow> (int \<rightharpoonup> string)" where
  "GetAffectedColumns rit = affectedColumns rit"

definition Init :: "'t IntegerTransformer \<Rightarrow> Context \<Rightarrow> error option" where
  "Init rit ctx = None"

definition Done :: "'t IntegerTransformer \<Rightarrow> Context \<Rightarrow> error option" where
  "Done rit ctx = None"

text \<open>
  A per-row call returns Go's error (\<open>None\<close> for \<open>nil\<close>, when the record \<open>r\<close> itself is
  returned), the transformer with the new state of its typed transformer, the record as
  the call leaves it, and the log of the calls made.
\<close>

definition dynamicTransform ::
  "('g, 't) Transformers \<Rightarrow> 't IntegerTransformer \<Rightarrow> Context \<Rightarrow> ToolkitRecord \<Rightarrow>
     error option \<times> 't IntegerTransformer \<times> ToolkitRecord \<times> call list" where
  \<open>dynamicTransform X rit ctx r =
     (case GetRawColumnValueByIdx r (columnIdx rit) of
        Inl err \<Rightarrow>
          (Some (Wrapf ''unable to scan value: %w'' [] err), rit, r, [CallGetRaw (columnIdx rit)])
      | Inr val \<Rightarrow>
          if IsNull val \<and> keepNull rit then (None, rit, r, [CallGetRaw (columnIdx rit)])
          else
            (case Scan (minParam rit) (Some r) of
               Inl err \<Rightarrow>
                 (Some (Wrapf ''unable to scan "min" param: %w'' [] err), rit, r,
                  [CallGetRaw (columnIdx rit), CallScan ''min''])
             | Inr minVal \<Rightarrow>
                 (case Scan (maxParam rit) (Some r) of
                    Inl err \<Rightarrow>
                      (Some (Wrapf ''unable to scan "max" param: %w'' [] err), rit, r,
                       [CallGetRaw (columnIdx rit), CallScan ''min'', CallScan ''max''])
                  | Inr maxVal \<Rightarrow>
                      (case getLimiterForDynamicParameter (intSize rit) minVal maxVal of
                         Inl err \<Rightarrow>
                           (Some (Wrapf ''error creating limiter in dynamic mode: %w'' [] err), rit, r,
                            [CallGetRaw (columnIdx rit), CallScan ''min'', CallScan ''max''])
                       | Inr limiter \<Rightarrow>
                           (case Transform X (transformer_t rit) (Some limiter) (Data val) of
                              (Inl err, tt) \<Rightarrow>
                                (Some (Wrapf ''error generating int value: %w'' [] err),
                                 rit\<lparr>transformer_t := tt\<rparr>, r,
                                 [CallGetRaw (columnIdx rit), CallScan ''min'', CallScan ''max'',
                                  CallTransform (Some limiter) (Data val)])
                            | (Inr res, tt) \<Rightarrow>
                                (case SetRawColumnValueByIdx r (columnIdx rit) (NewRawValue res False) of
                                   Inl err \<Rightarrow>
                                     (Some (Wrapf ''unable to set new value: %w'' [] err),
                                      rit\<lparr>transformer_t := tt\<rparr>, r,
                                      [CallGetRaw (columnIdx rit), CallScan ''min'', CallScan ''max'',
                                       CallTransform (Some limiter) (Data val),
                                       CallSetRaw (columnIdx rit) (NewRawValue res False)])
                                 | Inr r' \<Rightarrow>
                                     (None, rit\<lparr>transformer_t := tt\<rparr>, r',
                                      [CallGetRaw (columnIdx rit), CallScan ''min'', CallScan ''max'',
                                       CallTransform (Some limiter) (Data val),
                                       CallSetRaw (columnIdx rit) (NewRawValue res False)])))))))\<close>

definition staticTransform ::
  "('g, 't) Transformers \<Rightarrow> 't IntegerTransformer \<Rightarrow> Context \<Rightarrow> ToolkitRecord \<Rightarrow>
     error option \<times> 't IntegerTransformer \<times> ToolkitRecord \<times> call list" where
  \<open>staticTransform X rit ctx r =
     (case GetRawColumnValueByIdx r (columnIdx rit) of
        Inl err \<Rightarrow>
          (Some (Wrapf ''unable to scan value: %w'' [] err), rit, r, [CallGetRaw (columnIdx rit)])
      | Inr val \<Rightarrow>
          if IsNull val \<and> keepNull rit then (None, rit, r, [CallGetRaw (columnIdx rit)])
          else
            (case Transform X (transformer_t rit) ctx (Data val) of
               (Inl err, tt) \<Rightarrow>
                 (Some (Wrapf ''error generating int value: %w'' [] err),
                  rit\<lparr>transformer_t := tt\<rparr>, r,
                  [CallGetRaw (columnIdx rit), CallTransform ctx (Data val)])
             | (Inr res, tt) \<Rightarrow>
                 (case SetRawColumnValueByIdx r (columnIdx rit) (NewRawValue res False) of
                    Inl err \<Rightarrow>
                      (Some (Wrapf ''unable to set new value: %w'' [] err),
                       rit\<lparr>transformer_t := tt\<rparr>, r,
                       [CallGetRaw (columnIdx rit), CallTransform ctx (Data val),
                        CallSetRaw (columnIdx rit) (NewRawValue res False)])
                  | Inr r' \<Rightarrow>
                      (None, rit\<lparr>transformer_t := tt\<rparr>, r',
                       [CallGetRaw (columnIdx rit), CallTransform ctx (Data val),
                        CallSetRaw (columnIdx rit) (NewRawValue res False)]))))\<close>

definition IntegerTransformer_Transform ::
  "('g, 't) Transformers \<Rightarrow> 't IntegerTransformer \<Rightarrow> Context \<Rightarrow> ToolkitRecord \<Rightarrow>
     error option \<times> 't IntegerTransformer \<times> ToolkitRecord \<times> call list" where
  "IntegerTransformer_Transform X rit ctx r =
     (if dynamicMode rit then dynamicTransform X rit ctx r else staticTransform X rit ctx r)"

section \<open>Concrete collaborators\<close>

text \<open>
  Collaborators on which the transformer is run on concrete inputs: a table with one
  \<open>int2\<close> column \<open>id\<close> at index 0, static parameters, a dynamic parameter whose value is
  the number of bytes of the sibling column 1, a typed transformer that counts its calls
  in its state, and one whose generation step fails.
\<close>

definition exampleColumn :: Column where
  "exampleColumn =
     \<lparr>Idx = 0, Name = ''id'', TypeName = ''int2'', CanonicalTypeName = ''int2'', TypeOid = 21,
      Num = 1, NotNull = False, Length = 2, OverriddenTypeName = [], OverriddenTypeOid = 0\<rparr>"

definition exampleDriver :: Driver where
  "exampleDriver = \<lparr>GetColumnByName = (\<lambda>n. if n = ''id'' then Some (0, exampleColumn) else None)\<rparr>"

definition staticParameter :: "'a \<Rightarrow> 'a Parameterizer" where
  "staticParameter v = \<lparr>IsDynamic = False, Scan = (\<lambda>r. Inr v)\<rparr>"

definition dynamicParameter :: "int64 Parameterizer" where
  "dynamicParameter =
     \<lparr>IsDynamic = True,
      Scan = (\<lambda>r. case r of
                None \<Rightarrow> Inl (External ''no record is bound'')
              | Some row \<Rightarrow>
                  (case GetRawColumnValueByIdx row 1 of
                     Inl err \<Rightarrow> Inl err
                   | Inr v \<Rightarrow> Inr (of_nat (length (Data v)))))\<rparr>"

definition staticParameters :: "int64 \<Rightarrow> int64 \<Rightarrow> Parameters" where
  "staticParameters minVal maxVal =
     \<lparr>param_column = staticParameter ''id'', param_min = staticParameter minVal,
      param_max = staticParameter maxVal, param_keep_null = staticParameter True\<rparr>"


definition countingTransformers :: "(unit, nat) Transformers" where
  "countingTransformers =
     \<lparr>NewInt64Transformer = (\<lambda>g limiter. Inr 0),
      Transform = (\<lambda>n ctx d. (Inr [0, 42], Suc n))\<rparr>"

definition failingTransformers :: "(unit, nat) Transformers" where
  "failingTransformers =
     \<lparr>NewInt64Transformer = (\<lambda>g limiter. Inr 0),
      Transform = (\<lambda>n ctx d. (Inl (External ''generator failed''), Suc n))\<rparr>"

definition exampleTransformer :: "bool \<Rightarrow> bool \<Rightarrow> nat IntegerTransformer" where
  "exampleTransformer dyn keep =
     \<lparr>columnName = ''id'', keepNull = keep, affectedColumns = Map.empty(0 \<mapsto> ''id''),
      columnIdx = 0, transformer_t = 0, dynamicMode = dyn, intSize = 2,
      columnParam = staticParameter ''id'',
      maxParam = staticParameter 100,
      minParam = (if dyn then dynamicParameter else staticParameter 10),
      keepNullParam = staticParameter keep\<rparr>"

definition nullRow :: ToolkitRecord where
  "nullRow = [NewRawValue [] True, NewRawValue [1, 2, 3] False]"

definition valueRow :: ToolkitRecord where
  "valueRow = [NewRawValue [0, 5] False, NewRawValue [1, 2, 3] False]"

section \<open>Properties of the thresholds and the limiter\<close>

lemma getIntThresholds_simps:
  "getIntThresholds 2 = Inr (MinInt16, MaxInt16)"
  "getIntThresholds 4 = Inr (MinInt32, MaxInt32)"
  "getIntThresholds 8 = Inr (MinInt16, MaxInt16)"
  by (simp_all add: getIntThresholds_def Int2Length_def Int4Length_def Int8Length_def)

lemma sint_consts:
  "sint MinInt16 = - 32768" "sint MaxInt16 = 32767"
  "sint MinInt32 = - 2147483648" "sint MaxInt32 = 2147483647"
  "sint MinInt64 = - 9223372036854775808" "sint MaxInt64 = 9223372036854775807"
  by (simp_all add: MinInt16_def MaxInt16_def MinInt32_def MaxInt32_def MinInt64_def MaxInt64_def)

lemma limitIsValid_ordered: "lo \<le>s hi \<Longrightarrow> limitIsValid x lo hi"
  unfolding limitIsValid_def word_sle_eq by linarith

lemma thresholds_ordered: "getIntThresholds sz = Inr (lo, hi) \<Longrightarrow> lo \<le>s hi"
  by (auto simp: getIntThresholds_def word_sle_eq sint_consts split: if_splits)

lemma NewInt64Limiter_full:
  "NewInt64Limiter MinInt64 MaxInt64 = Inr \<lparr>MinValue = MinInt64, MaxValue = MaxInt64\<rparr>"
  by (simp add: NewInt64Limiter_def word_sle_eq sint_consts)

lemma validate_warns_empty: "fst (snd (validateIntTypeAndSetLimit sz rmin rmax)) = []"
  by (auto simp: validateIntTypeAndSetLimit_def Let_def limitIsValid_ordered IsFatal_def
      dest: thresholds_ordered split: sum.splits prod.splits)

text \<open>
  Claim C1, as amended. For every supported width (2, 4 or 8 bytes), when the requested
  min and max are both the sentinel 0, the Limiter built by \<open>validateIntTypeAndSetLimit\<close>
  (static mode) and by \<open>getLimiterForDynamicParameter\<close> (dynamic mode) has the bounds of
  the full signed 64-bit range, \<open>[-2^63, 2^63 - 1]\<close>, whatever the width: both functions
  call \<open>NewInt64Limiter(math.MinInt64, math.MaxInt64)\<close>.
\<close>

theorem sentinel_limiter_is_int64_range:
  assumes "sz \<in> {2, 4, 8}"
  shows "validateIntTypeAndSetLimit sz 0 0 = (Some \<lparr>MinValue = MinInt64, MaxValue = MaxInt64\<rparr>, [], None)
    \<and> getLimiterForDynamicParameter sz 0 0 = Inr \<lparr>MinValue = MinInt64, MaxValue = MaxInt64\<rparr>
    \<and> sint MinInt64 = - (2 ^ 63) \<and> sint MaxInt64 = 2 ^ 63 - 1"
proof -
  obtain lo hi where th: "getIntThresholds sz = Inr (lo, hi)"
    using assms by (auto simp: getIntThresholds_simps)
  have v: "limitIsValid x lo hi" for x
    using thresholds_ordered [OF th] by (rule limitIsValid_ordered)
  show ?thesis
    by (simp add: validateIntTypeAndSetLimit_def getLimiterForDynamicParameter_def th v Let_def
        IsFatal_def NewInt64Limiter_full sint_consts)
qed

theorem sentinel_limiter_is_int64_range_witness:
  "(2::int) \<in> {2, 4, 8}
   \<and> validateIntTypeAndSetLimit 2 0 0 = (Some \<lparr>MinValue = MinInt64, MaxValue = MaxInt64\<rparr>, [], None)
   \<and> getLimiterForDynamicParameter 2 0 0 = Inr \<lparr>MinValue = MinInt64, MaxValue = MaxInt64\<rparr>"
  using sentinel_limiter_is_int64_range [of 2] by simp

text \<open>
  Claim C1 as stated fails on an \<open>int2\<close> column: with min = max = 0 neither function
  returns the Limiter \<open>[-32768, 32767]\<close>.
\<close>

theorem sentinel_limiter_int2_counterexample:
  "fst (validateIntTypeAndSetLimit 2 0 0) \<noteq> Some \<lparr>MinValue = - 32768, MaxValue = 32767\<rparr>
   \<and> getLimiterForDynamicParameter 2 0 0 \<noteq> Inr \<lparr>MinValue = - 32768, MaxValue = 32767\<rparr>"
  by (simp add: validateIntTypeAndSetLimit_def getLimiterForDynamicParameter_def getIntThresholds_simps
      Let_def limitIsValid_def IsFatal_def NewInt64Limiter_def word_sle_eq sint_consts
      MinInt64_def MaxInt64_def)

text \<open>
  Claim C2. \<open>getIntThresholds\<close> returns \<open>[-32768, 32767]\<close> for size 2 and
  \<open>[-2147483648, 2147483647]\<close> for size 4, but for size 8 it returns the 16-bit range
  \<open>[-32768, 32767]\<close> again, not the full 64-bit signed range the claim states.
\<close>

theorem getIntThresholds_size8_is_int16_range:
  "getIntThresholds 2 = Inr (- 32768, 32767)
   \<and> getIntThresholds 4 = Inr (- 2147483648, 2147483647)
   \<and> getIntThresholds 8 = Inr (- 32768, 32767)
   \<and> getIntThresholds 8 \<noteq> Inr (MinInt64, MaxInt64)"
  by (simp add: getIntThresholds_simps MinInt16_def MaxInt16_def MinInt32_def MaxInt32_def
      MinInt64_def MaxInt64_def)

lemma getIntThresholds_unsupported:
  "sz \<notin> {2, 4, 8} \<Longrightarrow> getIntThresholds sz = Inl (Errorf ''unsupported int size %d'' [ArgInt sz])"
  by (simp add: getIntThresholds_def Int2Length_def Int4Length_def Int8Length_def)

text \<open>
  Claim C4. \<open>limitIsValid\<close> accepts a requested threshold iff it is at least the type
  minimum or at most the type maximum (as signed 64-bit integers); it rejects it only when
  it is below the minimum and above the maximum at once.
\<close>

theorem limitIsValid_iff:
  "(limitIsValid x lo hi \<longleftrightarrow> (sint lo \<le> sint x \<or> sint x \<le> sint hi))
   \<and> (\<not> limitIsValid x lo hi \<longleftrightarrow> (sint x < sint lo \<and> sint hi < sint x))"
  by (auto simp: limitIsValid_def word_sle_eq)

text \<open>
  Claim C5. For every supported size and every pair of requested bounds, \<open>limitIsValid\<close>
  holds of both bounds against the thresholds of that size, so
  \<open>validateIntTypeAndSetLimit\<close> returns no warning and \<open>getLimiterForDynamicParameter\<close>
  returns neither of its two out-of-range errors.
\<close>

theorem limitIsValid_always_holds:
  assumes "sz \<in> {2, 4, 8}"
  shows "(\<exists>lo hi. getIntThresholds sz = Inr (lo, hi) \<and> limitIsValid rmin lo hi \<and> limitIsValid rmax lo hi)
    \<and> fst (snd (validateIntTypeAndSetLimit sz rmin rmax)) = []
    \<and> getLimiterForDynamicParameter sz rmin rmax \<noteq>
        Inl (Errorf ''requested dynamic parameter min value is out of range of int%d size'' [ArgInt sz])
    \<and> getLimiterForDynamicParameter sz rmin rmax \<noteq>
        Inl (Errorf ''requested dynamic parameter max value is out of range of int%d size'' [ArgInt sz])"
proof -
  obtain lo hi where th: "getIntThresholds sz = Inr (lo, hi)"
    using assms by (auto simp: getIntThresholds_simps)
  have v: "limitIsValid x lo hi" for x
    using thresholds_ordered [OF th] by (rule limitIsValid_ordered)
  have dyn: "getLimiterForDynamicParameter sz rmin rmax = Inl e \<Longrightarrow> e = ErrWrongLimits" for e
    by (auto simp: getLimiterForDynamicParameter_def th v NewInt64Limiter_def split: if_splits)
  show ?thesis
    using th v dyn by (auto simp: validate_warns_empty)
qed

theorem limitIsValid_always_holds_witness:
  "(2::int) \<in> {2, 4, 8}
   \<and> (\<exists>lo hi. getIntThresholds 2 = Inr (lo, hi) \<and> limitIsValid 100000 lo hi \<and> limitIsValid 0 lo hi)
   \<and> fst (snd (validateIntTypeAndSetLimit 2 100000 0)) = []
   \<and> getLimiterForDynamicParameter 2 100000 0 \<noteq>
        Inl (Errorf ''requested dynamic parameter min value is out of range of int%d size'' [ArgInt 2])
   \<and> getLimiterForDynamicParameter 2 100000 0 \<noteq>
        Inl (Errorf ''requested dynamic parameter max value is out of range of int%d size'' [ArgInt 2])"
  using limitIsValid_always_holds [of 2 100000 0] by simp

section \<open>Properties of the hash reducer\<close>

text \<open>
  Claim C8, as amended. \<open>Size()\<close> returns the reduction length the reducer was built
  with. When the inner generator succeeds and \<open>0 \<le> Size() \<le>\<close> the length of its
  output, \<open>Generate\<close> returns the first \<open>Size()\<close> bytes of that output, of length exactly
  \<open>Size()\<close>. Whenever \<open>Generate\<close> returns a byte sequence at all, its length is \<open>Size()\<close>.
\<close>

theorem HashReducer_Generate_length:
  "HashReducer_Size (NewHashReducer G n) = n
   \<and> (Generate G st nil = (Inr out, st') \<and> 0 \<le> n \<and> n \<le> int (length (elems out)) \<longrightarrow>
        (\<exists>res. HashReducer_Generate (NewHashReducer G n) st d = (Inr res, st')
            \<and> elems res = take (nat n) (elems out)
            \<and> int (length (elems res)) = HashReducer_Size (NewHashReducer G n)))
   \<and> (HashReducer_Generate hr st d = (Inr res', st'') \<longrightarrow>
        int (length (elems res')) = HashReducer_Size hr)"
  by (auto simp: HashReducer_Generate_def HashReducer_Size_def NewHashReducer_def reslice_def Let_def
      split: prod.splits sum.splits if_splits)

theorem HashReducer_Generate_length_witness:
  "Generate echoGenerator () nil = (Inr \<lparr>elems = [7, 8, 9, 10], spare = []\<rparr>, ()) \<and> (0::int) \<le> 2
   \<and> (2::int) \<le> int (length (elems \<lparr>elems = [7, 8, 9, 10 :: byte], spare = []\<rparr>))
   \<and> HashReducer_Generate (NewHashReducer echoGenerator 2) () \<lparr>elems = [1, 2, 3], spare = []\<rparr>
       = (Inr \<lparr>elems = [7, 8], spare = [9, 10]\<rparr>, ())
   \<and> HashReducer_Size (NewHashReducer echoGenerator 2) = 2"
  using HashReducer_Generate_length
    [of echoGenerator 2 "()" "\<lparr>elems = [7, 8, 9, 10], spare = []\<rparr>" "()"
      "\<lparr>elems = [1, 2, 3], spare = []\<rparr>" "NewHashReducer echoGenerator 2"
      "\<lparr>elems = [7, 8], spare = [9, 10]\<rparr>" "()"]
  by (auto simp: HashReducer_Generate_def HashReducer_Size_def NewHashReducer_def echoGenerator_def
      reslice_def nil_def)

text \<open>
  Claim C8 as stated fails when the inner generator succeeds with fewer bytes than
  \<open>Size()\<close>: an inner output of 2 bytes (capacity 2) and a reduction length of 4 make
  \<open>res[:hr.size]\<close> panic, and no byte sequence is returned.
\<close>

theorem HashReducer_Generate_short_output_counterexample:
  "Generate twoByteGenerator () nil = (Inr \<lparr>elems = [1, 2], spare = []\<rparr>, ())
   \<and> HashReducer_Size (NewHashReducer twoByteGenerator 4) = 4
   \<and> HashReducer_Generate (NewHashReducer twoByteGenerator 4) () nil
       = (Inl (Panic ''slice bounds out of range''), ())"
  by (simp add: HashReducer_Generate_def HashReducer_Size_def NewHashReducer_def twoByteGenerator_def
      reslice_def nil_def)

text \<open>
  Claim C9. \<open>HashReducer.Generate\<close> calls the inner generator on the nil slice, not on
  its input. What it returns is what that call on nil returns: the generator state the
  call leaves, an error of the inner generator as it is, and a successful output cut by
  \<open>res[:hr.size]\<close>. So two calls from the same generator state return the same result
  whatever their inputs, the result depends on the inner generator only through what it
  returns on nil, and with an inner generator whose output does not depend on its state
  the reduced output is one value for all inputs.
\<close>

theorem HashReducer_Generate_ignores_data:
  "HashReducer_Generate hr st d1 = HashReducer_Generate hr st d2
   \<and> snd (HashReducer_Generate hr st d1) = snd (Generate (hr_g hr) st nil)
   \<and> (Generate (hr_g hr) st nil = (Inr res, st') \<longrightarrow>
        HashReducer_Generate hr st d1 = (reslice res (hr_size hr), st'))
   \<and> (Generate (hr_g hrE) stE nil = (Inl err, stE') \<longrightarrow>
        HashReducer_Generate hrE stE dE = (Inl err, stE'))
   \<and> (Generate G st nil = Generate G' st nil \<longrightarrow>
        HashReducer_Generate (NewHashReducer G n) st d1 = HashReducer_Generate (NewHashReducer G' n) st d2)
   \<and> ((\<forall>s s' x. fst (Generate (hr_g hr) s x) = fst (Generate (hr_g hr) s' x)) \<longrightarrow>
        fst (HashReducer_Generate hr s1 d1) = fst (HashReducer_Generate hr s2 d2))"
proof (intro conjI impI)
  show "HashReducer_Generate hr st d1 = HashReducer_Generate hr st d2"
    by (simp add: HashReducer_Generate_def)
  show "snd (HashReducer_Generate hr st d1) = snd (Generate (hr_g hr) st nil)"
    by (simp add: HashReducer_Generate_def split: prod.splits sum.splits)
  show "HashReducer_Generate hr st d1 = (reslice res (hr_size hr), st')"
    if "Generate (hr_g hr) st nil = (Inr res, st')"
    using that by (simp add: HashReducer_Generate_def)
  show "HashReducer_Generate hrE stE dE = (Inl err, stE')"
    if "Generate (hr_g hrE) stE nil = (Inl err, stE')"
    using that by (simp add: HashReducer_Generate_def)
  show "HashReducer_Generate (NewHashReducer G n) st d1 = HashReducer_Generate (NewHashReducer G' n) st d2"
    if "Generate G st nil = Generate G' st nil"
    using that
    by (simp add: HashReducer_Generate_def NewHashReducer_def split: prod.splits sum.splits)
  show "fst (HashReducer_Generate hr s1 d1) = fst (HashReducer_Generate hr s2 d2)"
    if det: "\<forall>s s' x. fst (Generate (hr_g hr) s x) = fst (Generate (hr_g hr) s' x)"
  proof -
    have "fst (Generate (hr_g hr) s1 nil) = fst (Generate (hr_g hr) s2 nil)"
      using det by blast
    then show ?thesis
      by (auto simp: HashReducer_Generate_def Let_def split: prod.splits sum.splits)
  qed
qed

theorem HashReducer_Generate_ignores_data_witness:
  "Generate echoGenerator () nil = Generate fixedGenerator () nil
   \<and> (\<forall>s s' x. fst (Generate (hr_g (NewHashReducer echoGenerator 2)) s x)
                = fst (Generate (hr_g (NewHashReducer echoGenerator 2)) s' x))
   \<and> HashReducer_Generate (NewHashReducer echoGenerator 2) () \<lparr>elems = [1, 2, 3], spare = []\<rparr>
       = HashReducer_Generate (NewHashReducer echoGenerator 2) () \<lparr>elems = [4, 5], spare = []\<rparr>
   \<and> HashReducer_Generate (NewHashReducer echoGenerator 2) () \<lparr>elems = [1, 2, 3], spare = []\<rparr>
       = HashReducer_Generate (NewHashReducer fixedGenerator 2) () \<lparr>elems = [4, 5], spare = []\<rparr>
   \<and> fst (HashReducer_Generate (NewHashReducer echoGenerator 2) () \<lparr>elems = [1, 2, 3], spare = []\<rparr>)
       = fst (HashReducer_Generate (NewHashReducer echoGenerator 2) () \<lparr>elems = [4, 5], spare = []\<rparr>)
   \<and> Generate (hr_g (NewHashReducer countingGenerator 2)) 5 nil
       = (Inr \<lparr>elems = [7, 8, 9, 10], spare = []\<rparr>, 6)
   \<and> HashReducer_Generate (NewHashReducer countingGenerator 2) 5 \<lparr>elems = [1, 2, 3], spare = []\<rparr>
       = (reslice \<lparr>elems = [7, 8, 9, 10], spare = []\<rparr> 2, 6)
   \<and> snd (HashReducer_Generate (NewHashReducer countingGenerator 2) 5 \<lparr>elems = [1, 2, 3], spare = []\<rparr>) = 6
   \<and> Generate (hr_g (NewHashReducer failingGenerator 2)) 0 nil = (Inl (External ''generator failed''), 1)
   \<and> HashReducer_Generate (NewHashReducer failingGenerator 2) 0 \<lparr>elems = [1, 2, 3], spare = []\<rparr>
       = (Inl (External ''generator failed''), 1)"
proof -
  have agree: "Generate echoGenerator () nil = Generate fixedGenerator () nil"
    by (simp add: echoGenerator_def fixedGenerator_def nil_def)
  have det: "\<forall>s s' x. fst (Generate (hr_g (NewHashReducer echoGenerator 2)) s x)
                = fst (Generate (hr_g (NewHashReducer echoGenerator 2)) s' x)"
    by (simp add: echoGenerator_def NewHashReducer_def)
  have cnt: "Generate (hr_g (NewHashReducer countingGenerator 2)) 5 nil
       = (Inr \<lparr>elems = [7, 8, 9, 10], spare = []\<rparr>, 6)"
    by (simp add: countingGenerator_def NewHashReducer_def nil_def)
  have fl: "Generate (hr_g (NewHashReducer failingGenerator 2)) 0 nil = (Inl (External ''generator failed''), 1)"
    by (simp add: failingGenerator_def NewHashReducer_def)
  have sz: "hr_size (NewHashReducer countingGenerator 2) = 2"
    by (simp add: NewHashReducer_def)
  note a = HashReducer_Generate_ignores_data [where hr = "NewHashReducer echoGenerator 2" and st = "()"
          and ?d1.0 = "\<lparr>elems = [1, 2, 3], spare = []\<rparr>" and ?d2.0 = "\<lparr>elems = [4, 5], spare = []\<rparr>"
          and res = "\<lparr>elems = [7, 8, 9, 10], spare = []\<rparr>" and st' = "()"
          and G = echoGenerator and G' = fixedGenerator and n = 2 and ?s1.0 = "()" and ?s2.0 = "()"
          and hrE = "NewHashReducer failingGenerator 2" and stE = 0
          and dE = "\<lparr>elems = [1, 2, 3], spare = []\<rparr>"
          and err = "External ''generator failed''" and stE' = 1]
  note b = HashReducer_Generate_ignores_data [where hr = "NewHashReducer countingGenerator 2" and st = 5
          and ?d1.0 = "\<lparr>elems = [1, 2, 3], spare = []\<rparr>" and ?d2.0 = "\<lparr>elems = [4, 5], spare = []\<rparr>"
          and res = "\<lparr>elems = [7, 8, 9, 10], spare = []\<rparr>" and st' = 6
          and G = countingGenerator and G' = countingGenerator and n = 2 and ?s1.0 = 5 and ?s2.0 = 5
          and hrE = "NewHashReducer failingGenerator 2" and stE = 0
          and dE = "\<lparr>elems = [1, 2, 3], spare = []\<rparr>"
          and err = "External ''generator failed''" and stE' = 1]
  from a agree det have echo:
    "HashReducer_Generate (NewHashReducer echoGenerator 2) () \<lparr>elems = [1, 2, 3], spare = []\<rparr>
       = HashReducer_Generate (NewHashReducer echoGenerator 2) () \<lparr>elems = [4, 5], spare = []\<rparr>"
    "HashReducer_Generate (NewHashReducer echoGenerator 2) () \<lparr>elems = [1, 2, 3], spare = []\<rparr>
       = HashReducer_Generate (NewHashReducer fixedGenerator 2) () \<lparr>elems = [4, 5], spare = []\<rparr>"
    "fst (HashReducer_Generate (NewHashReducer echoGenerator 2) () \<lparr>elems = [1, 2, 3], spare = []\<rparr>)
       = fst (HashReducer_Generate (NewHashReducer echoGenerator 2) () \<lparr>elems = [4, 5], spare = []\<rparr>)"
    by blast+
  from a fl have failing:
    "HashReducer_Generate (NewHashReducer failingGenerator 2) 0 \<lparr>elems = [1, 2, 3], spare = []\<rparr>
       = (Inl (External ''generator failed''), 1)"
    by blast
  from b [unfolded sz] cnt have counting:
    "HashReducer_Generate (NewHashReducer countingGenerator 2) 5 \<lparr>elems = [1, 2, 3], spare = []\<rparr>
       = (reslice \<lparr>elems = [7, 8, 9, 10], spare = []\<rparr> 2, 6)"
    by blast
  from b have
    "snd (HashReducer_Generate (NewHashReducer countingGenerator 2) 5 \<lparr>elems = [1, 2, 3], spare = []\<rparr>)
       = snd (Generate (hr_g (NewHashReducer countingGenerator 2)) 5 nil)"
    by blast
  then have state:
    "snd (HashReducer_Generate (NewHashReducer countingGenerator 2) 5 \<lparr>elems = [1, 2, 3], spare = []\<rparr>) = 6"
    unfolding cnt by simp
  show ?thesis
    using agree det cnt fl echo failing counting state by blast
qed

section \<open>Properties of the transformer\<close>

lemma exampleTransformer_fields:
  "columnIdx (exampleTransformer dyn keep) = 0"
  "keepNull (exampleTransformer dyn keep) = keep"
  "dynamicMode (exampleTransformer dyn keep) = dyn"
  "intSize (exampleTransformer dyn keep) = 2"
  "transformer_t (exampleTransformer dyn keep) = 0"
  "minParam (exampleTransformer dyn keep) = (if dyn then dynamicParameter else staticParameter 10)"
  "maxParam (exampleTransformer dyn keep) = staticParameter 100"
  by (simp_all add: exampleTransformer_def)

lemma example_scans:
  "Scan (staticParameter x) row = Inr x"
  "Scan dynamicParameter (Some nullRow) = Inr 3"
  "Scan dynamicParameter (Some valueRow) = Inr 3"
  by (simp_all add: staticParameter_def dynamicParameter_def GetRawColumnValueByIdx_def nullRow_def
      valueRow_def NewRawValue_def)

lemma example_reads:
  "GetRawColumnValueByIdx nullRow 0 = Inr (NewRawValue [] True)"
  "GetRawColumnValueByIdx valueRow 0 = Inr (NewRawValue [0, 5] False)"
  by (simp_all add: GetRawColumnValueByIdx_def nullRow_def valueRow_def)

lemma example_limiter:
  "getLimiterForDynamicParameter 2 3 100 = Inr \<lparr>MinValue = 3, MaxValue = 100\<rparr>"
  by (simp add: getLimiterForDynamicParameter_def getIntThresholds_simps limitIsValid_def
      NewInt64Limiter_def word_sle_eq sint_consts)

text \<open>
  Claim C3. On an \<open>int2\<close> column with min = 100000 and max = 0 the validity check
  accepts 100000 (it is at least -32768), so no warning is produced: the claimed fatal
  warning with the allowed bounds never appears. Construction ends with the error of the
  Limiter constructor on the pair (100000, 0) instead.
\<close>

theorem int2_min_100000_gives_no_warning:
  "limitIsValid 100000 MinInt16 MaxInt16
   \<and> validateIntTypeAndSetLimit 2 100000 0 = (None, [], Some ErrWrongLimits)
   \<and> fst (NewIntegerTransformer countingTransformers None exampleDriver (staticParameters 100000 0) ())
       = (None, [], Some ErrWrongLimits)"
  by (simp add: NewIntegerTransformer_def staticParameters_def staticParameter_def exampleDriver_def
      exampleColumn_def scanLimits_def validateIntTypeAndSetLimit_def getIntThresholds_simps Let_def
      limitIsValid_def IsFatal_def NewInt64Limiter_def word_sle_eq sint_consts)

theorem int2_min_100000_gives_no_warning_witness:
  "fst (snd (validateIntTypeAndSetLimit 2 100000 0)) = []
   \<and> \<not> IsFatal (fst (snd (validateIntTypeAndSetLimit 2 100000 0)))
   \<and> fst (snd (fst (NewIntegerTransformer countingTransformers None exampleDriver
                        (staticParameters 100000 0) ()))) = []
   \<and> fst (fst (NewIntegerTransformer countingTransformers None exampleDriver
                   (staticParameters 100000 0) ())) = None"
  using int2_min_100000_gives_no_warning by (simp add: IsFatal_def)

text \<open>
  Claim C6. When the raw value of the bound column is null and \<open>keep_null\<close> is true,
  \<open>Transform\<close> (in static and in dynamic mode) returns the record unchanged, the column
  still null; its only call is the read of the raw value: no generation, no scan of min
  or max, no write.
\<close>

theorem Transform_keep_null:
  assumes "GetRawColumnValueByIdx r (columnIdx rit) = Inr v" and "IsNull v" and "keepNull rit"
  shows "IntegerTransformer_Transform X rit ctx r = (None, rit, r, [CallGetRaw (columnIdx rit)])
     \<and> GetRawColumnValueByIdx (fst (snd (snd (IntegerTransformer_Transform X rit ctx r)))) (columnIdx rit)
         = Inr v"
  using assms
  by (simp add: IntegerTransformer_Transform_def dynamicTransform_def staticTransform_def)

theorem Transform_keep_null_witness:
  "GetRawColumnValueByIdx nullRow (columnIdx (exampleTransformer True True)) = Inr (NewRawValue [] True)
   \<and> IsNull (NewRawValue [] True) \<and> keepNull (exampleTransformer True True)
   \<and> IntegerTransformer_Transform countingTransformers (exampleTransformer True True) None nullRow
       = (None, exampleTransformer True True, nullRow, [CallGetRaw 0])
   \<and> IntegerTransformer_Transform countingTransformers (exampleTransformer False True) None nullRow
       = (None, exampleTransformer False True, nullRow, [CallGetRaw 0])"
proof -
  have g: "GetRawColumnValueByIdx nullRow (columnIdx (exampleTransformer dyn True)) = Inr (NewRawValue [] True)"
    for dyn
    by (simp add: exampleTransformer_fields example_reads)
  have n: "IsNull (NewRawValue [] True)"
    by (simp add: NewRawValue_def)
  have k: "keepNull (exampleTransformer dyn True)" for dyn
    by (simp add: exampleTransformer_fields)
  have i: "columnIdx (exampleTransformer dyn True) = 0" for dyn
    by (simp add: exampleTransformer_fields)
  show ?thesis
    using Transform_keep_null [OF g n k, of countingTransformers True None]
      Transform_keep_null [OF g n k, of countingTransformers False None] g n k
    by (simp add: i)
qed

text \<open>
  Claim C10. Whenever a per-row \<open>Transform\<close> call (static or dynamic mode) returns an
  error, the record is as it was before the call: the bound column keeps its bytes and its
  null flag. An error from reading the value, scanning a parameter, building the dynamic
  Limiter or running generation is returned before any write is attempted.
\<close>

theorem Transform_error_keeps_record:
  assumes "IntegerTransformer_Transform X rit ctx r = (Some err, rit', r', calls)"
  shows "r' = r
    \<and> GetRawColumnValueByIdx r' (columnIdx rit) = GetRawColumnValueByIdx r (columnIdx rit)
    \<and> ((\<forall>e. err \<noteq> Wrapf ''unable to set new value: %w'' [] e) \<longrightarrow>
          (\<forall>i v. CallSetRaw i v \<notin> set calls))"
  using assms
  by (auto simp: IntegerTransformer_Transform_def dynamicTransform_def staticTransform_def
      split: if_splits sum.splits prod.splits)

theorem Transform_error_keeps_record_witness:
  "IntegerTransformer_Transform failingTransformers (exampleTransformer True False) None nullRow
     = (Some (Wrapf ''error generating int value: %w'' [] (External ''generator failed'')),
        (exampleTransformer True False)\<lparr>transformer_t := 1\<rparr>, nullRow,
        [CallGetRaw 0, CallScan ''min'', CallScan ''max'',
         CallTransform (Some \<lparr>MinValue = 3, MaxValue = 100\<rparr>) []])
   \<and> (\<forall>e. Wrapf ''error generating int value: %w'' [] (External ''generator failed'')
           \<noteq> Wrapf ''unable to set new value: %w'' [] e)
   \<and> GetRawColumnValueByIdx nullRow (columnIdx (exampleTransformer True False)) = Inr (NewRawValue [] True)
   \<and> (\<forall>i v. CallSetRaw i v \<notin> set [CallGetRaw 0, CallScan ''min'', CallScan ''max'',
         CallTransform (Some \<lparr>MinValue = 3, MaxValue = 100\<rparr>) []])"
proof -
  have run:
    "IntegerTransformer_Transform failingTransformers (exampleTransformer True False) None nullRow
       = (Some (Wrapf ''error generating int value: %w'' [] (External ''generator failed'')),
          (exampleTransformer True False)\<lparr>transformer_t := 1\<rparr>, nullRow,
          [CallGetRaw 0, CallScan ''min'', CallScan ''max'',
           CallTransform (Some \<lparr>MinValue = 3, MaxValue = 100\<rparr>) []])"
    by (simp add: IntegerTransformer_Transform_def dynamicTransform_def exampleTransformer_fields
        example_scans example_reads example_limiter failingTransformers_def NewRawValue_def)
  have g: "GetRawColumnValueByIdx nullRow (columnIdx (exampleTransformer True False)) = Inr (NewRawValue [] True)"
    by (simp add: exampleTransformer_fields example_reads)
  show ?thesis
    using Transform_error_keeps_record [OF run] run g by simp
qed

















end
